theory Spec2Isabelle
  imports Main
begin

section \<open>Python values and dictionaries\<close>

text \<open>
  The values a metadata dictionary can hold (\<open>Dict[str, Any]\<close>) and the values passed to
  and returned by callables: the JSON-like fragment of Python's objects, and an instance of
  a class, given by the address of its class and its attributes.
\<close>

datatype pyval =
    PNone
  | PBool bool
  | PInt int
  | PStr string
  | PList "pyval list"
  | PDict "(string \<times> pyval) list"
  | PInstance nat "(string \<times> pyval) list"

text \<open>
  A Python \<open>dict\<close> keeps its items in insertion order, one item per key. It is an
  association list; \<open>dict_wf\<close> says that no key occurs twice, which every dictionary
  Python builds satisfies.
\<close>

type_synonym 'v dict = "(string \<times> 'v) list"

definition dict_wf :: "'v dict \<Rightarrow> bool" where
  "dict_wf d = distinct (map fst d)"

text \<open>\<open>d[k] = v\<close>: an existing key keeps its place and takes the new value, a new key goes last.\<close>

fun dict_set :: "string \<Rightarrow> 'v \<Rightarrow> 'v dict \<Rightarrow> 'v dict" where
  "dict_set k v [] = [(k, v)]"
| "dict_set k v ((k', v') # d) = (if k' = k then (k, v) # d else (k', v') # dict_set k v d)"

text \<open>\<open>d.get(k)\<close>: the value at a key, or nothing.\<close>

definition dict_get :: "'v dict \<Rightarrow> string \<Rightarrow> 'v option" where
  "dict_get d k = map_of d k"

text \<open>\<open>k in d\<close>.\<close>

definition dict_contains :: "string \<Rightarrow> 'v dict \<Rightarrow> bool" where
  "dict_contains k d = (k \<in> set (map fst d))"

text \<open>\<open>d.update(m)\<close>: the items of \<open>m\<close> are stored into \<open>d\<close> one after the other, in \<open>m\<close>'s order.\<close>

definition dict_update :: "'v dict \<Rightarrow> 'v dict \<Rightarrow> 'v dict" where
  "dict_update d m = fold (\<lambda>kv acc. dict_set (fst kv) (snd kv) acc) m d"

text \<open>The truth value of an \<open>Optional[str]\<close>: \<open>None\<close> and the empty string are false.\<close>

fun str_truthy :: "string option \<Rightarrow> bool" where
  "str_truthy None = False"
| "str_truthy (Some s) = (s \<noteq> [])"

section \<open>Errors\<close>

text \<open>
  The exceptions of the fragment: pydantic's \<open>ValidationError\<close> (a required field is
  missing), \<open>TypeError\<close> with its message, and any other exception a user's callable raises.
\<close>

datatype error =
    ValidationError string
  | TypeError string
  | OtherError string

section \<open>mcp\_server\_config.py\<close>

subsection \<open>MCPServerConfig\<close>

record MCPServerConfig =
  server_url :: string
  type :: string
  name :: "string option"
  description :: "string option"
  metadata :: "pyval dict"

text \<open>
  The constructor pydantic derives from the field declarations. \<open>server_url\<close> and
  \<open>type\<close> are declared with \<open>Field(...)\<close>: they are required, so an argument that is not
  supplied (\<open>None\<close> here) is a \<open>ValidationError\<close>. The declarations carry no constraint
  on the strings (no \<open>min_length\<close>, no validator). \<open>name\<close> and \<open>description\<close> default to
  \<open>None\<close>, \<open>metadata\<close> to a new empty dictionary.
\<close>

definition MCPServerConfig_init ::
  "string option \<Rightarrow> string option \<Rightarrow> string option \<Rightarrow> string option \<Rightarrow> pyval dict option
    \<Rightarrow> error + MCPServerConfig" where
  "MCPServerConfig_init server_url' type' name' description' metadata' =
     (case server_url' of
        None \<Rightarrow> Inl (ValidationError ''server_url'')
      | Some u \<Rightarrow>
          (case type' of
             None \<Rightarrow> Inl (ValidationError ''type'')
           | Some t \<Rightarrow>
               Inr \<lparr>server_url = u, type = t, name = name', description = description',
                    metadata = (case metadata' of None \<Rightarrow> [] | Some m \<Rightarrow> m)\<rparr>))"

definition MCPServerConfig_to_langdb_format :: "MCPServerConfig \<Rightarrow> pyval dict" where
  "MCPServerConfig_to_langdb_format self =
     (let result = [(''server_url'', PStr (server_url self)), (''type'', PStr (type self))];
          result = (case name self of
                      None \<Rightarrow> result
                    | Some n \<Rightarrow> if n \<noteq> [] then dict_set ''name'' (PStr n) result else result);
          result = (case description self of
                      None \<Rightarrow> result
                    | Some d \<Rightarrow> if d \<noteq> [] then dict_set ''description'' (PStr d) result else result);
          result = (if metadata self \<noteq> [] then dict_update result (metadata self) else result)
      in result)"

text \<open>
  \<open>from_url(server_url, server_type="sse", **kwargs)\<close>. The keyword arguments the class
  has fields for are \<open>name\<close>, \<open>description\<close> and \<open>metadata\<close>; each may be left out.
\<close>

definition default_server_type :: string where
  "default_server_type = ''sse''"

definition from_url ::
  "string \<Rightarrow> string \<Rightarrow> string option \<Rightarrow> string option \<Rightarrow> pyval dict option
    \<Rightarrow> error + MCPServerConfig" where
  "from_url server_url' server_type name' description' metadata' =
     MCPServerConfig_init (Some server_url') (Some server_type) name' description' metadata'"

subsection \<open>RemoteMCPConfig\<close>

record RemoteMCPConfig =
  servers :: "MCPServerConfig list"

text \<open>\<open>RemoteMCPConfig()\<close>: the default factory gives a new empty list.\<close>

definition RemoteMCPConfig_init :: RemoteMCPConfig where
  "RemoteMCPConfig_init = \<lparr>servers = []\<rparr>"

text \<open>The methods that change \<open>self\<close> return the changed object.\<close>

definition RemoteMCPConfig_add_server :: "RemoteMCPConfig \<Rightarrow> MCPServerConfig \<Rightarrow> RemoteMCPConfig" where
  "RemoteMCPConfig_add_server self server = self\<lparr>servers := servers self @ [server]\<rparr>"

definition RemoteMCPConfig_add_server_url ::
  "RemoteMCPConfig \<Rightarrow> string \<Rightarrow> string \<Rightarrow> string option \<Rightarrow> string option \<Rightarrow> pyval dict option
    \<Rightarrow> error + RemoteMCPConfig" where
  "RemoteMCPConfig_add_server_url self server_url' server_type name' description' metadata' =
     (case from_url server_url' server_type name' description' metadata' of
        Inl e \<Rightarrow> Inl e
      | Inr server \<Rightarrow> Inr (RemoteMCPConfig_add_server self server))"

text \<open>
  The list comprehension \<open>[server.to_langdb_format() for server in self.servers]\<close> is a
  loop over the servers that appends each converted server to the result.
\<close>

fun comprehension :: "('a \<Rightarrow> 'b) \<Rightarrow> 'a list \<Rightarrow> 'b list \<Rightarrow> 'b list" where
  "comprehension f [] acc = acc"
| "comprehension f (x # xs) acc = comprehension f xs (acc @ [f x])"

definition RemoteMCPConfig_to_langdb_format :: "RemoteMCPConfig \<Rightarrow> pyval dict list" where
  "RemoteMCPConfig_to_langdb_format self =
     comprehension MCPServerConfig_to_langdb_format (servers self) []"

definition RemoteMCPConfig_len :: "RemoteMCPConfig \<Rightarrow> int" where
  "RemoteMCPConfig_len self = int (length (servers self))"

definition RemoteMCPConfig_bool :: "RemoteMCPConfig \<Rightarrow> bool" where
  "RemoteMCPConfig_bool self = (int (length (servers self)) > 0)"

section \<open>remote\_mcp\_toolset.py\<close>

subsection \<open>The store and the logger\<close>

text \<open>
  A toolset holds a reference to its \<open>RemoteMCPConfig\<close>, which the caller may hold too, and
  \<open>add_server\<close> changes that object in place. The collections therefore live in a store:
  \<open>heap\<close> maps an address to the object there, \<open>next_ref\<close> is the first address not yet
  given out. The records of the module's logger are part of the world as well.
\<close>

datatype log_level = DEBUG | INFO

record world =
  heap :: "nat \<Rightarrow> RemoteMCPConfig"
  next_ref :: nat
  log_records :: "(log_level \<times> string) list"

definition alloc :: "RemoteMCPConfig \<Rightarrow> world \<Rightarrow> nat \<times> world" where
  "alloc c w = (next_ref w, w\<lparr>heap := (heap w)(next_ref w := c), next_ref := Suc (next_ref w)\<rparr>)"

definition logger_info :: "string \<Rightarrow> world \<Rightarrow> world" where
  "logger_info msg w = w\<lparr>log_records := log_records w @ [(INFO, msg)]\<rparr>"

definition logger_debug :: "string \<Rightarrow> world \<Rightarrow> world" where
  "logger_debug msg w = w\<lparr>log_records := log_records w @ [(DEBUG, msg)]\<rparr>"

text \<open>The decimal digits of a number, as an f-string formats the result of \<open>len\<close>.\<close>

definition digit_char :: "nat \<Rightarrow> char" where
  "digit_char d = char_of (48 + d)"

fun str_nat :: "nat \<Rightarrow> string" where
  "str_nat n = (if n < 10 then [digit_char n] else str_nat (n div 10) @ [digit_char (n mod 10)])"

subsection \<open>RemoteMCPToolset\<close>

text \<open>
  The base class \<open>BaseToolset\<close> is outside the fragment; its constructor receives the tool
  filter, a value of a type \<open>'f\<close> that no method here looks at.
\<close>

record 'f RemoteMCPToolset =
  mcp_config :: nat
  tool_filter :: "'f option"

definition RemoteMCPToolset_add_server ::
  "'f RemoteMCPToolset \<Rightarrow> string \<Rightarrow> string \<Rightarrow> string option \<Rightarrow> string option \<Rightarrow> pyval dict
    \<Rightarrow> world \<Rightarrow> error + world" where
  "RemoteMCPToolset_add_server self server_url' server_type name' description' metadata' w =
     (case MCPServerConfig_init (Some server_url') (Some server_type) name' description'
             (Some metadata') of
        Inl e \<Rightarrow> Inl e
      | Inr server_config \<Rightarrow>
          Inr (logger_info
                 (''Added remote MCP server: '' @ server_url' @ '' (type: '' @ server_type @ '')'')
                 (w\<lparr>heap := (heap w)(mcp_config self :=
                        RemoteMCPConfig_add_server (heap w (mcp_config self)) server_config)\<rparr>)))"

definition add_server_config :: "'f RemoteMCPToolset \<Rightarrow> MCPServerConfig \<Rightarrow> world \<Rightarrow> world" where
  "add_server_config self server_config w =
     logger_info (''Added remote MCP server: '' @ server_url server_config)
       (w\<lparr>heap := (heap w)(mcp_config self :=
              RemoteMCPConfig_add_server (heap w (mcp_config self)) server_config)\<rparr>)"

text \<open>
  \<open>__init__\<close>. All parameters are keyword-only; \<open>server_url\<close>, \<open>server_name\<close>,
  \<open>server_description\<close>, \<open>mcp_config\<close> and \<open>tool_filter\<close> default to \<open>None\<close> and
  \<open>server_type\<close> to \<open>default_server_type\<close>. \<open>if mcp_config:\<close> asks for the truth value of
  the collection, its \<open>__bool__\<close>; \<open>if server_url:\<close> for that of the string.
\<close>

definition RemoteMCPToolset_init ::
  "string option \<Rightarrow> string \<Rightarrow> string option \<Rightarrow> string option \<Rightarrow> nat option \<Rightarrow> 'f option
    \<Rightarrow> world \<Rightarrow> error + ('f RemoteMCPToolset \<times> world)" where
  "RemoteMCPToolset_init server_url' server_type server_name server_description mcp_config'
       tool_filter' w =
     (let (r, w1) =
            (case mcp_config' of
               None \<Rightarrow> alloc RemoteMCPConfig_init w
             | Some r' \<Rightarrow>
                 if RemoteMCPConfig_bool (heap w r') then (r', w) else alloc RemoteMCPConfig_init w);
          self = \<lparr>mcp_config = r, tool_filter = tool_filter'\<rparr>
      in case server_url' of
           None \<Rightarrow> Inr (self, w1)
         | Some u \<Rightarrow>
             if u \<noteq> [] then
               (case RemoteMCPToolset_add_server self u server_type server_name
                       server_description [] w1 of
                  Inl e \<Rightarrow> Inl e
                | Inr w2 \<Rightarrow> Inr (self, w2))
             else Inr (self, w1))"

text \<open>
  \<open>get_tools\<close> is declared \<open>async\<close> and never suspends: awaiting it gives its result at once.
  The tools have a type \<open>'t\<close> of the framework, the context a type \<open>'c\<close>.
\<close>

definition get_tools :: "'f RemoteMCPToolset \<Rightarrow> 'c option \<Rightarrow> world \<Rightarrow> 't list \<times> world" where
  "get_tools self readonly_context w =
     ([], logger_info
            (''RemoteMCPToolset configured with ''
               @ str_nat (length (servers (heap w (mcp_config self)))) @ '' remote servers'')
            w)"

definition close :: "'f RemoteMCPToolset \<Rightarrow> world \<Rightarrow> world" where
  "close self w = logger_debug ''Closing RemoteMCPToolset (no-op for remote servers)'' w"

definition get_mcp_servers_config :: "'f RemoteMCPToolset \<Rightarrow> world \<Rightarrow> pyval dict list" where
  "get_mcp_servers_config self w = RemoteMCPConfig_to_langdb_format (heap w (mcp_config self))"

definition RemoteMCPToolset_len :: "'f RemoteMCPToolset \<Rightarrow> world \<Rightarrow> int" where
  "RemoteMCPToolset_len self w = RemoteMCPConfig_len (heap w (mcp_config self))"

definition RemoteMCPToolset_bool :: "'f RemoteMCPToolset \<Rightarrow> world \<Rightarrow> bool" where
  "RemoteMCPToolset_bool self w = RemoteMCPConfig_bool (heap w (mcp_config self))"

section \<open>feature\_decorator.py\<close>

subsection \<open>Warnings, callables and classes\<close>

text \<open>
  \<open>warnings.warn\<close> hands a warning to the interpreter; it is recorded in the list of issued
  warnings, as under \<open>warnings.catch_warnings(record=True)\<close> with the filter \<open>always\<close>.
  \<open>stacklevel\<close> only selects the source line reported with the warning.
\<close>

datatype category = UserWarning

record 's env =
  issued :: "(category \<times> string) list"
  rest :: 's

definition warnings_warn :: "string \<Rightarrow> category \<Rightarrow> 's env \<Rightarrow> 's env" where
  "warnings_warn msg cat e = e\<lparr>issued := issued e @ [(cat, msg)]\<rparr>"

text \<open>The arguments of a call: \<open>*args\<close> and \<open>**kwargs\<close>.\<close>

record arguments =
  args :: "pyval list"
  kwargs :: "pyval dict"

text \<open>
  What a callable does when it is called: from the arguments and the environment (the
  issued warnings and the rest of the program's state, of a type \<open>'s\<close>) to the value it
  returns or the exception it raises, and the environment it leaves. An \<open>__init__\<close> takes
  the attributes of \<open>self\<close> as well and returns them as it leaves them.
\<close>

type_synonym 's behaviour = "arguments \<Rightarrow> 's env \<Rightarrow> (error + pyval) \<times> 's env"

type_synonym 's init_behaviour = "pyval dict \<Rightarrow> arguments \<Rightarrow> 's env \<Rightarrow> (error + pyval dict) \<times> 's env"

text \<open>
  A class object is mutable and shared by every name bound to it, so classes live in a
  table from addresses to class objects, and \<open>obj.__init__ = new_init\<close> updates the table.
  The classes are the instances of \<open>type\<close>. A class object has its name, its method
  resolution order (the addresses of its proper ancestors, in order, \<open>object\<close> left out),
  the \<open>__init__\<close> and the \<open>__new__\<close> of its own dictionary when it defines them, and
  it is immutable when it is a built-in or extension type, whose attributes cannot be
  assigned.

  An \<open>__init__\<close> is \<open>object.__init__\<close>, or a function with a behaviour of its own (one
  defined by a \<open>def\<close>, or the initialiser of a built-in type), which does not look at the
  class table, or the function \<open>new_init\<close> a decorator has built: \<open>Warned msg orig_init\<close>
  is the closure of \<open>new_init\<close> over \<open>warn_msg\<close> and \<open>orig_init\<close>. A \<open>__new__\<close> receives
  the address of the class to instantiate and returns the object it makes.
\<close>

datatype 's init_fn =
    ObjectInit
  | UserInit "'s init_behaviour"
  | Warned string "'s init_fn"

type_synonym 's new_behaviour = "nat \<Rightarrow> arguments \<Rightarrow> 's env \<Rightarrow> (error + pyval) \<times> 's env"

record 's class_obj =
  cls_name :: string
  cls_mro :: "nat list"
  cls_immutable :: bool
  cls_own_init :: "'s init_fn option"
  cls_own_new :: "'s new_behaviour option"

text \<open>
  The objects a decorator can be applied to: a class, by its address; a callable that is
  not a class, with its \<open>__name__\<close> if it has one, the name of its type and its behaviour;
  and any other object, with its \<open>__name__\<close> if it has one and the name of its type.
\<close>

datatype 's pyobj =
    Class nat
  | Callable "string option" string "'s behaviour"
  | Other "string option" string

fun isinstance_type :: "'s pyobj \<Rightarrow> bool" where
  "isinstance_type (Class r) = True"
| "isinstance_type (Callable nm tn f) = False"
| "isinstance_type (Other nm tn) = False"

fun callable :: "'s pyobj \<Rightarrow> bool" where
  "callable (Class r) = True"
| "callable (Callable nm tn f) = True"
| "callable (Other nm tn) = False"

text \<open>\<open>getattr(obj, "__name__", type(obj).__name__)\<close>.\<close>

fun getattr_name :: "(nat \<Rightarrow> 's class_obj) \<Rightarrow> 's pyobj \<Rightarrow> string" where
  "getattr_name classes (Class r) = cls_name (classes r)"
| "getattr_name classes (Callable nm tn f) = (case nm of Some n \<Rightarrow> n | None \<Rightarrow> tn)"
| "getattr_name classes (Other nm tn) = (case nm of Some n \<Rightarrow> n | None \<Rightarrow> tn)"

subsection \<open>Attribute lookup and instantiation\<close>

text \<open>
  Looking an attribute up on a class: the first definition in the class itself and then
  in its ancestors, in the method resolution order. \<open>None\<close> is \<open>object\<close>'s attribute.
\<close>

fun first_some :: "'x option list \<Rightarrow> 'x option" where
  "first_some [] = None"
| "first_some (None # xs) = first_some xs"
| "first_some (Some x # xs) = Some x"

definition lookup_init :: "(nat \<Rightarrow> 's class_obj) \<Rightarrow> nat \<Rightarrow> 's init_fn option" where
  "lookup_init classes r =
     first_some (map (\<lambda>t. cls_own_init (classes t)) (r # cls_mro (classes r)))"

definition lookup_new :: "(nat \<Rightarrow> 's class_obj) \<Rightarrow> nat \<Rightarrow> 's new_behaviour option" where
  "lookup_new classes r =
     first_some (map (\<lambda>t. cls_own_new (classes t)) (r # cls_mro (classes r)))"

text \<open>
  Whether the \<open>tp_init\<close> slot of a class is \<open>object\<close>'s initialiser: no class of the
  resolution order defines \<open>__init__\<close>, or the one found is \<open>object.__init__\<close> itself.
  Likewise for \<open>tp_new\<close>.
\<close>

fun object_init_slot :: "'s init_fn option \<Rightarrow> bool" where
  "object_init_slot None = True"
| "object_init_slot (Some ObjectInit) = True"
| "object_init_slot (Some (UserInit f)) = False"
| "object_init_slot (Some (Warned msg g)) = False"

fun object_new_slot :: "'s new_behaviour option \<Rightarrow> bool" where
  "object_new_slot None = True"
| "object_new_slot (Some f) = False"

definition excess_args :: "arguments \<Rightarrow> bool" where
  "excess_args a = (args a \<noteq> [] \<or> kwargs a \<noteq> [])"

text \<open>
  \<open>object.__init__(self, *args, **kwargs)\<close> on an instance of the class at \<open>t\<close>: it
  rejects arguments when the class has an \<open>__init__\<close> of its own or has \<open>object\<close>'s
  \<open>__new__\<close>, and does nothing otherwise.
\<close>

definition object_init :: "(nat \<Rightarrow> 's class_obj) \<Rightarrow> nat \<Rightarrow> 's init_behaviour" where
  "object_init classes t self a e =
     (if excess_args a then
        if \<not> object_init_slot (lookup_init classes t) then
          (Inl (TypeError
             ''object.__init__() takes exactly one argument (the instance to initialize)''), e)
        else if object_new_slot (lookup_new classes t) then
          (Inl (TypeError (cls_name (classes t)
             @ ''.__init__() takes exactly one argument (the instance to initialize)'')), e)
        else (Inr self, e)
      else (Inr self, e))"

text \<open>
  \<open>object.__new__(cls, *args, **kwargs)\<close>: it rejects arguments when the class has a
  \<open>__new__\<close> of its own or has \<open>object\<close>'s \<open>__init__\<close>, and makes an instance with no
  attributes otherwise.
\<close>

definition object_new :: "(nat \<Rightarrow> 's class_obj) \<Rightarrow> 's new_behaviour" where
  "object_new classes r a e =
     (if excess_args a then
        if \<not> object_new_slot (lookup_new classes r) then
          (Inl (TypeError
             ''object.__new__() takes exactly one argument (the type to instantiate)''), e)
        else if object_init_slot (lookup_init classes r) then
          (Inl (TypeError (cls_name (classes r) @ ''() takes no arguments'')), e)
        else (Inr (PInstance r []), e)
      else (Inr (PInstance r []), e))"

text \<open>
  Calling an \<open>__init__\<close> on an instance of the class at \<open>t\<close>. The third equation is the
  body of \<open>new_init\<close>: \<open>warnings.warn(warn_msg, category=UserWarning, stacklevel=2)\<close>, then
  \<open>return orig_init(self, *args, **kwargs)\<close>.
\<close>

fun call_init :: "(nat \<Rightarrow> 's class_obj) \<Rightarrow> nat \<Rightarrow> 's init_fn \<Rightarrow> 's init_behaviour" where
  "call_init classes t ObjectInit self a e = object_init classes t self a e"
| "call_init classes t (UserInit f) self a e = f self a e"
| "call_init classes t (Warned msg orig_init) self a e =
     call_init classes t orig_init self a (warnings_warn msg UserWarning e)"

text \<open>\<open>cls.__init__\<close>, the attribute read: what the lookup finds, \<open>object.__init__\<close> if nothing.\<close>

definition getattr_init :: "(nat \<Rightarrow> 's class_obj) \<Rightarrow> nat \<Rightarrow> 's init_fn" where
  "getattr_init classes r = (case lookup_init classes r of None \<Rightarrow> ObjectInit | Some g \<Rightarrow> g)"

text \<open>The two slots \<open>type.__call__\<close> runs.\<close>

definition tp_new :: "(nat \<Rightarrow> 's class_obj) \<Rightarrow> 's new_behaviour" where
  "tp_new classes r a e =
     (case lookup_new classes r of None \<Rightarrow> object_new classes r a e | Some f \<Rightarrow> f r a e)"

definition tp_init :: "(nat \<Rightarrow> 's class_obj) \<Rightarrow> nat \<Rightarrow> 's init_behaviour" where
  "tp_init classes t self a e = call_init classes t (getattr_init classes t) self a e"

definition issubclass :: "(nat \<Rightarrow> 's class_obj) \<Rightarrow> nat \<Rightarrow> nat \<Rightarrow> bool" where
  "issubclass classes t r = (t = r \<or> r \<in> set (cls_mro (classes t)))"

text \<open>
  \<open>obj(*args, **kwargs)\<close>. Calling a class is \<open>type.__call__\<close>: \<open>__new__\<close> makes the
  object; when the object is an instance of the class, the \<open>__init__\<close> of the object's
  own class runs on it with the same arguments, and an exception of \<open>__new__\<close> or
  \<open>__init__\<close> propagates; the object is returned. An object that is not callable raises
  \<open>TypeError\<close>.
\<close>

fun invoke :: "(nat \<Rightarrow> 's class_obj) \<Rightarrow> 's pyobj \<Rightarrow> 's behaviour" where
  "invoke classes (Class r) a e =
     (case tp_new classes r a e of
        (Inl err, e1) \<Rightarrow> (Inl err, e1)
      | (Inr v, e1) \<Rightarrow>
          (case v of
             PInstance t attrs \<Rightarrow>
               if issubclass classes t r then
                 (case tp_init classes t attrs a e1 of
                    (Inl err, e2) \<Rightarrow> (Inl err, e2)
                  | (Inr attrs', e2) \<Rightarrow> (Inr (PInstance t attrs'), e2))
               else (Inr v, e1)
           | _ \<Rightarrow> (Inr v, e1)))"
| "invoke classes (Callable nm tn f) a e = f a e"
| "invoke classes (Other nm tn) a e =
     (Inl (TypeError ([CHR 0x27] @ tn @ [CHR 0x27] @ '' object is not callable'')), e)"

text \<open>\<open>str.upper\<close> on the ASCII letters, which are what the labels are written in.\<close>

definition upper_char :: "char \<Rightarrow> char" where
  "upper_char c =
     (if 97 \<le> (of_char c :: nat) \<and> (of_char c :: nat) \<le> 122
      then char_of ((of_char c :: nat) - 32) else c)"

definition upper :: "string \<Rightarrow> string" where
  "upper s = map upper_char s"

subsection \<open>The decorator factory\<close>

definition warn_msg :: "string \<Rightarrow> string \<Rightarrow> string \<Rightarrow> string" where
  "warn_msg label obj_name message = ''['' @ upper label @ ''] '' @ obj_name @ '': '' @ message"

text \<open>
  The innermost function, \<open>decorator(obj)\<close>, with the variables it closes over (\<open>label\<close>
  and \<open>message\<close>) as parameters. The three equations are the branches
  \<open>isinstance(obj, type)\<close>, \<open>callable(obj)\<close> and \<open>else\<close>, in the source's order: a class
  is callable too and takes the first. In the first, \<open>orig_init = obj.__init__\<close> reads
  the attribute, and the assignment \<open>obj.__init__ = new_init\<close> raises the interpreter's
  \<open>TypeError\<close> when the class is immutable. \<open>functools.wraps\<close> gives the wrapper the
  \<open>__name__\<close> of the wrapped object when that has one; the wrapper is a function named
  \<open>wrapper\<close> otherwise.
\<close>

fun decorator ::
  "string \<Rightarrow> string \<Rightarrow> 's pyobj \<Rightarrow> (nat \<Rightarrow> 's class_obj)
    \<Rightarrow> error + ('s pyobj \<times> (nat \<Rightarrow> 's class_obj))" where
  "decorator label message (Class r) classes =
     (let obj_name = getattr_name classes (Class r);
          msg = warn_msg label obj_name message;
          orig_init = getattr_init classes r;
          new_init = Warned msg orig_init
      in if cls_immutable (classes r) then
           Inl (TypeError (''cannot set '' @ [CHR 0x27] @ ''__init__'' @ [CHR 0x27]
                  @ '' attribute of immutable type '' @ [CHR 0x27] @ obj_name @ [CHR 0x27]))
         else Inr (Class r, classes(r := (classes r)\<lparr>cls_own_init := Some new_init\<rparr>)))"
| "decorator label message (Callable nm tn f) classes =
     (let obj_name = getattr_name classes (Callable nm tn f);
          msg = warn_msg label obj_name message;
          wrapper = (\<lambda>a e. invoke classes (Callable nm tn f) a (warnings_warn msg UserWarning e))
      in Inr (Callable (Some (case nm of Some n \<Rightarrow> n | None \<Rightarrow> ''wrapper'')) ''function'' wrapper,
              classes))"
| "decorator label message (Other nm tn) classes =
     Inl (TypeError (''@'' @ label @ '' can only be applied to classes or callable objects''))"

text \<open>
  \<open>decorator_factory(message=default_message)\<close> inside
  \<open>_make_feature_decorator(label, default_message)\<close>: a message that is not given is the
  default one.
\<close>

definition make_feature_decorator ::
  "string \<Rightarrow> string \<Rightarrow> string option \<Rightarrow> 's pyobj \<Rightarrow> (nat \<Rightarrow> 's class_obj)
    \<Rightarrow> error + ('s pyobj \<times> (nat \<Rightarrow> 's class_obj))" where
  "make_feature_decorator label default_message message =
     decorator label (case message of None \<Rightarrow> default_message | Some m \<Rightarrow> m)"

definition working_in_progress ::
  "string option \<Rightarrow> 's pyobj \<Rightarrow> (nat \<Rightarrow> 's class_obj)
    \<Rightarrow> error + ('s pyobj \<times> (nat \<Rightarrow> 's class_obj))" where
  "working_in_progress =
     make_feature_decorator ''WIP''
       ''This feature is a work in progress and may be incomplete or unstable.''"


section \<open>Example inputs\<close>

text \<open>An endpoint whose metadata has the key \<open>type\<close>, and one whose metadata has the key \<open>name\<close>.\<close>

definition cfg_type_X :: MCPServerConfig where
  "cfg_type_X = \<lparr>server_url = ''https://example.org/mcp'', type = ''sse'', name = None,
      description = None, metadata = [(''type'', PStr ''X'')]\<rparr>"

definition cfg_meta_name :: MCPServerConfig where
  "cfg_meta_name = \<lparr>server_url = ''https://example.org/mcp'', type = ''sse'', name = None,
      description = None, metadata = [(''name'', PStr ''search'')]\<rparr>"

text \<open>
  A world with one collection, at address 0, that holds one endpoint; and the toolset built
  from that collection together with a URL.
\<close>

definition server_A :: MCPServerConfig where
  "server_A = \<lparr>server_url = ''https://example.org/a'', type = ''sse'', name = Some ''a'',
      description = None, metadata = []\<rparr>"

definition world_A :: world where
  "world_A = \<lparr>heap = (\<lambda>_. \<lparr>servers = []\<rparr>)(0 := \<lparr>servers = [server_A]\<rparr>), next_ref = 1,
      log_records = []\<rparr>"

definition toolset_A :: "error + (unit RemoteMCPToolset \<times> world)" where
  "toolset_A = RemoteMCPToolset_init (Some ''https://example.org/b'') ''sse'' None None (Some 0)
      None world_A"

text \<open>
  A class table in which every address holds a class like \<open>object\<close>, and one with the
  built-in \<open>int\<close> at address 1, \<open>class Plain: pass\<close> at address 2, a class \<open>Point\<close> at
  address 3 whose \<open>__init__(self, x)\<close> stores \<open>x\<close>, a class \<open>Pair\<close> at address 4 that takes
  its two fields through \<open>__new__\<close> and has no \<open>__init__\<close> (as a named tuple), and a
  subclass \<open>Pixel\<close> of \<open>Point\<close> at address 5 that defines nothing; a function that counts
  its positional arguments; a call with two positional and one keyword argument, a call
  with one positional argument, a call with none and a call with two positional arguments;
  an environment with no warning issued yet.
\<close>

definition no_classes :: "nat \<Rightarrow> unit class_obj" where
  "no_classes = (\<lambda>_. \<lparr>cls_name = ''object'', cls_mro = [], cls_immutable = True,
      cls_own_init = None, cls_own_new = None\<rparr>)"





definition count_args :: "unit behaviour" where
  "count_args a e = (Inr (PInt (int (length (args a)))), e)"

definition two_args :: arguments where
  "two_args = \<lparr>args = [PInt 7, PStr ''x''], kwargs = [(''flag'', PBool True)]\<rparr>"




definition env0 :: "unit env" where
  "env0 = \<lparr>issued = [], rest = ()\<rparr>"

section \<open>Dictionaries: keys and values after an update\<close>

lemma keys_dict_set:
  "map fst (dict_set k v d) = (if k \<in> set (map fst d) then map fst d else map fst d @ [k])"
  by (induction d) (force simp: image_iff)+

lemma dict_contains_Nil: "dict_contains k [] = False"
  by (simp add: dict_contains_def)

lemma dict_contains_Cons: "dict_contains k (kv # d) = (k = fst kv \<or> dict_contains k d)"
  by (auto simp: dict_contains_def)

lemma dict_contains_set:
  "dict_contains k (dict_set k' v d) = (k = k' \<or> dict_contains k d)"
  unfolding dict_contains_def keys_dict_set by auto

lemma dict_update_Cons:
  "dict_update d (kv # m) = dict_update (dict_set (fst kv) (snd kv) d) m"
  by (simp add: dict_update_def)

lemma dict_contains_update:
  "dict_contains k (dict_update d m) = (dict_contains k d \<or> dict_contains k m)"
proof (induction m arbitrary: d)
  case Nil
  show ?case by (simp add: dict_update_def dict_contains_Nil)
next
  case (Cons kv m)
  show ?case
    unfolding dict_update_Cons Cons.IH dict_contains_set dict_contains_Cons by auto
qed

lemma dict_get_set:
  "dict_get (dict_set k' v d) k = (if k = k' then Some v else dict_get d k)"
  by (induction d) (auto simp: dict_get_def)

text \<open>A key the update does not mention keeps its value.\<close>

lemma dict_get_update_notin:
  "\<not> dict_contains k m \<Longrightarrow> dict_get (dict_update d m) k = dict_get d k"
proof (induction m arbitrary: d)
  case Nil
  show ?case by (simp add: dict_update_def)
next
  case (Cons kv m)
  from Cons.prems have "k \<noteq> fst kv" and "\<not> dict_contains k m"
    by (simp_all add: dict_contains_Cons)
  then show ?case
    using Cons.IH [of "dict_set (fst kv) (snd kv) d"]
    by (simp add: dict_update_Cons dict_get_set)
qed

text \<open>A key the update mentions takes the update's value, whatever it had before.\<close>

lemma dict_get_update_in:
  "dict_wf m \<Longrightarrow> dict_get m k = Some v \<Longrightarrow> dict_get (dict_update d m) k = Some v"
proof (induction m arbitrary: d)
  case Nil
  then show ?case by (simp add: dict_get_def)
next
  case (Cons kv m)
  from Cons.prems(1) have wf: "dict_wf m" and fresh: "\<not> dict_contains (fst kv) m"
    by (auto simp: dict_wf_def dict_contains_def)
  show ?case
  proof (cases "k = fst kv")
    case True
    with Cons.prems(2) have "v = snd kv"
      by (cases kv) (simp add: dict_get_def)
    with True fresh show ?thesis
      by (simp add: dict_update_Cons dict_get_update_notin dict_get_set)
  next
    case False
    with Cons.prems(2) have "dict_get m k = Some v"
      by (cases kv) (simp add: dict_get_def)
    with wf Cons.IH show ?thesis
      by (simp add: dict_update_Cons)
  qed
qed

text \<open>After an update, a key has the update's value if the update binds it, its old value if not.\<close>

lemma dict_get_update:
  assumes "dict_wf m"
  shows "dict_get (dict_update d m) k =
         (case dict_get m k of Some v \<Rightarrow> Some v | None \<Rightarrow> dict_get d k)"
proof (cases "dict_get m k")
  case None
  then have "\<not> dict_contains k m"
    by (simp add: dict_get_def dict_contains_def map_of_eq_None_iff)
  with None show ?thesis
    by (simp add: dict_get_update_notin)
next
  case (Some v)
  with assms show ?thesis
    by (simp add: dict_get_update_in)
qed

text \<open>The loop of a list comprehension computes \<open>map\<close>.\<close>

lemma comprehension_map: "comprehension f xs acc = acc @ map f xs"
  by (induction xs arbitrary: acc) auto

section \<open>The server configuration\<close>

text \<open>
  Claim C2, as the code has it. The mapping \<open>to_langdb_format\<close> returns always has the keys
  \<open>server_url\<close> and \<open>type\<close>. It has the key \<open>name\<close> exactly when the \<open>name\<close> field is
  neither \<open>None\<close> nor empty or the metadata has a key \<open>name\<close>, and the key \<open>description\<close>
  exactly when the \<open>description\<close> field is neither \<open>None\<close> nor empty or the metadata has
  a key \<open>description\<close>: the metadata is merged into the result.
\<close>

theorem to_langdb_format_keys:
  "dict_contains ''server_url'' (MCPServerConfig_to_langdb_format c)
   \<and> dict_contains ''type'' (MCPServerConfig_to_langdb_format c)
   \<and> dict_contains ''name'' (MCPServerConfig_to_langdb_format c)
       = (str_truthy (name c) \<or> dict_contains ''name'' (metadata c))
   \<and> dict_contains ''description'' (MCPServerConfig_to_langdb_format c)
       = (str_truthy (description c) \<or> dict_contains ''description'' (metadata c))"
  by (cases "name c"; cases "description c")
     (auto simp: MCPServerConfig_to_langdb_format_def Let_def dict_contains_update
        dict_contains_set dict_contains_Cons dict_contains_Nil)

text \<open>
  Claim C2 as stated fails: an endpoint without a name whose metadata has the key \<open>name\<close>
  is converted to a mapping that has the key \<open>name\<close>.
\<close>

theorem to_langdb_format_keys_counterexample:
  "\<not> (dict_contains ''name'' (MCPServerConfig_to_langdb_format cfg_meta_name)
        = str_truthy (name cfg_meta_name))"
  by (simp add: cfg_meta_name_def MCPServerConfig_to_langdb_format_def dict_update_def
        dict_contains_def)

text \<open>
  Claim C3. \<open>to_langdb_format\<close> returns the base fields with the metadata merged over
  them: at every key the metadata binds, the result has the metadata's value, also when
  the key is the name of a base field such as \<open>type\<close> (the last write wins); at every
  other key it has the base field, \<open>server_url\<close> and \<open>type\<close> always, \<open>name\<close> and
  \<open>description\<close> when they are neither \<open>None\<close> nor empty, and nothing else. The
  conversion is a total function, so no collision raises an error.
\<close>

theorem metadata_overwrites_base_fields:
  assumes "dict_wf (metadata c)"
  shows "dict_get (MCPServerConfig_to_langdb_format c) k =
     (case dict_get (metadata c) k of
        Some v \<Rightarrow> Some v
      | None \<Rightarrow>
          if k = ''server_url'' then Some (PStr (server_url c))
          else if k = ''type'' then Some (PStr (type c))
          else if k = ''name'' \<and> str_truthy (name c) then map_option PStr (name c)
          else if k = ''description'' \<and> str_truthy (description c)
            then map_option PStr (description c)
          else None)"
proof -
  let ?base = "(let result = [(''server_url'', PStr (server_url c)), (''type'', PStr (type c))];
             result = (case name c of None \<Rightarrow> result
                       | Some n \<Rightarrow> if n \<noteq> [] then dict_set ''name'' (PStr n) result else result)
         in (case description c of None \<Rightarrow> result
             | Some d \<Rightarrow> if d \<noteq> [] then dict_set ''description'' (PStr d) result else result))"
  have base: "dict_get ?base k =
         (if k = ''server_url'' then Some (PStr (server_url c))
          else if k = ''type'' then Some (PStr (type c))
          else if k = ''name'' \<and> str_truthy (name c) then map_option PStr (name c)
          else if k = ''description'' \<and> str_truthy (description c)
            then map_option PStr (description c)
          else None)"
    by (cases "name c"; cases "description c") (auto simp: Let_def dict_get_def)
  have merged: "dict_get (MCPServerConfig_to_langdb_format c) k =
        (case dict_get (metadata c) k of Some v \<Rightarrow> Some v | None \<Rightarrow> dict_get ?base k)"
  proof (cases "metadata c = []")
    case True
    then have "MCPServerConfig_to_langdb_format c = ?base"
      by (simp add: MCPServerConfig_to_langdb_format_def Let_def)
    moreover from True have "dict_get (metadata c) k = None"
      by (simp add: dict_get_def)
    ultimately show ?thesis
      by simp
  next
    case False
    then have "MCPServerConfig_to_langdb_format c = dict_update ?base (metadata c)"
      by (simp add: MCPServerConfig_to_langdb_format_def Let_def)
    then show ?thesis
      using assms by (simp add: dict_get_update)
  qed
  show ?thesis
    by (subst merged, subst base) (rule refl)
qed

text \<open>
  The endpoint of type \<open>sse\<close> whose metadata binds \<open>type\<close> to \<open>X\<close> is converted with \<open>X\<close>
  at \<open>type\<close>, with its URL at \<open>server_url\<close>, and with nothing at \<open>name\<close>.
\<close>

theorem metadata_overwrites_base_fields_witness:
  "dict_wf (metadata cfg_type_X)
   \<and> dict_get (metadata cfg_type_X) ''type'' = Some (PStr ''X'')
   \<and> type cfg_type_X = ''sse''
   \<and> dict_get (MCPServerConfig_to_langdb_format cfg_type_X) ''type'' = Some (PStr ''X'')
   \<and> dict_get (MCPServerConfig_to_langdb_format cfg_type_X) ''server_url'' =
       Some (PStr ''https://example.org/mcp'')
   \<and> dict_get (MCPServerConfig_to_langdb_format cfg_type_X) ''name'' = None"
proof -
  have wf: "dict_wf (metadata cfg_type_X)"
    by (simp add: cfg_type_X_def dict_wf_def)
  show ?thesis
    using wf metadata_overwrites_base_fields [OF wf, of "''type''"]
      metadata_overwrites_base_fields [OF wf, of "''server_url''"]
      metadata_overwrites_base_fields [OF wf, of "''name''"]
    by (simp add: cfg_type_X_def dict_get_def)
qed

text \<open>
  Claim C5, as the code has it. Constructing an \<open>MCPServerConfig\<close>, directly or through
  \<open>from_url\<close>, from a \<open>server_url\<close> string and a \<open>type\<close> string succeeds whatever the
  strings are, the empty string included, and gives the configuration with these fields.
  Construction fails exactly when a required field is not supplied.
\<close>

theorem construction_accepts_any_strings:
  "MCPServerConfig_init (Some u) (Some t) n d m =
     Inr \<lparr>server_url = u, type = t, name = n, description = d,
          metadata = (case m of None \<Rightarrow> [] | Some x \<Rightarrow> x)\<rparr>
   \<and> from_url u t n d m =
     Inr \<lparr>server_url = u, type = t, name = n, description = d,
          metadata = (case m of None \<Rightarrow> [] | Some x \<Rightarrow> x)\<rparr>
   \<and> isl (MCPServerConfig_init u' t' n d m) = (u' = None \<or> t' = None)"
  by (cases u'; cases t') (simp_all add: MCPServerConfig_init_def from_url_def)

text \<open>
  Claim C5 as stated fails: construction with an empty \<open>server_url\<close> succeeds, and so does
  \<open>from_url\<close> with an empty type.
\<close>

theorem construction_empty_string_counterexample:
  "\<not> isl (MCPServerConfig_init (Some []) (Some ''sse'') None None None)
   \<and> \<not> isl (from_url ''https://example.org/mcp'' [] None None None)"
  by (simp add: MCPServerConfig_init_def from_url_def)

text \<open>
  Claim C6. \<open>to_langdb_format\<close> of a collection is the list of the converted endpoints in
  the order of the collection: it is \<open>map\<close> of the endpoint conversion over the servers,
  so it has one mapping for each endpoint, duplicates included, and an endpoint that is
  appended to the collection is converted last.
\<close>

theorem collection_format_is_map:
  "RemoteMCPConfig_to_langdb_format c = map MCPServerConfig_to_langdb_format (servers c)
   \<and> length (RemoteMCPConfig_to_langdb_format c) = length (servers c)
   \<and> RemoteMCPConfig_to_langdb_format (RemoteMCPConfig_add_server c s) =
       RemoteMCPConfig_to_langdb_format c @ [MCPServerConfig_to_langdb_format s]"
  by (simp add: RemoteMCPConfig_to_langdb_format_def comprehension_map
        RemoteMCPConfig_add_server_def)

section \<open>The toolset\<close>

text \<open>
  What \<open>__init__\<close> builds, for any arguments: it never fails; the toolset refers to the
  collection supplied when there is one and it is not empty, and to a new collection
  otherwise; that collection holds the endpoints supplied, then the endpoint made from
  the URL when the URL is given and not empty.
\<close>

lemma RemoteMCPToolset_init_result:
  "\<exists>self w'. (RemoteMCPToolset_init su st sn sd mc tf w
        :: error + ('f RemoteMCPToolset \<times> world)) = Inr (self, w')
     \<and> tool_filter self = tf
     \<and> mcp_config self =
         (case mc of None \<Rightarrow> next_ref w
          | Some r \<Rightarrow> if RemoteMCPConfig_bool (heap w r) then r else next_ref w)
     \<and> servers (heap w' (mcp_config self)) =
         (case mc of None \<Rightarrow> [] | Some r \<Rightarrow> servers (heap w r))
         @ (case su of None \<Rightarrow> []
            | Some u \<Rightarrow> if u = [] then []
                else [\<lparr>server_url = u, type = st, name = sn, description = sd, metadata = []\<rparr>])"
  by (cases mc; cases su)
     (auto simp: RemoteMCPToolset_init_def RemoteMCPToolset_add_server_def alloc_def Let_def
        MCPServerConfig_init_def RemoteMCPConfig_init_def RemoteMCPConfig_bool_def
        RemoteMCPConfig_add_server_def logger_info_def split: prod.splits)

text \<open>
  Claim C1. \<open>get_tools\<close> returns the empty list for every toolset, whatever collection it
  refers to in whatever world (no endpoint, one or many), with or without a context.
\<close>

theorem get_tools_empty:
  "fst (get_tools self readonly_context w :: 't list \<times> world) = []"
  by (simp add: get_tools_def)

text \<open>
  Claim C4, as the code has it. When \<open>__init__\<close> is given both a \<open>server_url\<close> and a
  collection, the toolset's collection holds the endpoints of the collection supplied, in
  their order, followed by one endpoint made from \<open>server_url\<close>, \<open>server_type\<close>,
  \<open>server_name\<close> and \<open>server_description\<close> when \<open>server_url\<close> is not empty, and by nothing
  when it is empty. The toolset's collection is the object supplied when that is not
  empty, and a new collection when it is empty.
\<close>

theorem init_url_and_config:
  "\<exists>self w'. (RemoteMCPToolset_init (Some u) st sn sd (Some r) tf w
        :: error + ('f RemoteMCPToolset \<times> world)) = Inr (self, w')
     \<and> mcp_config self = (if RemoteMCPConfig_bool (heap w r) then r else next_ref w)
     \<and> servers (heap w' (mcp_config self)) =
         servers (heap w r)
         @ (if u = [] then []
            else [\<lparr>server_url = u, type = st, name = sn, description = sd, metadata = []\<rparr>])"
  using RemoteMCPToolset_init_result [of "Some u" st sn sd "Some r" tf w] by auto

text \<open>
  Claim C4 as stated fails: built from the collection at address 0, which holds one
  endpoint, and a URL, the toolset refers to that collection, which now holds two
  endpoints, the second made from the URL.
\<close>

theorem init_url_and_config_counterexample:
  "\<not> isl toolset_A
   \<and> mcp_config (fst (projr toolset_A)) = 0
   \<and> servers (heap world_A 0) = [server_A]
   \<and> servers (heap (snd (projr toolset_A)) (mcp_config (fst (projr toolset_A)))) =
       [server_A,
        \<lparr>server_url = ''https://example.org/b'', type = ''sse'', name = None,
         description = None, metadata = []\<rparr>]"
  by (simp add: toolset_A_def world_A_def RemoteMCPToolset_init_def
        RemoteMCPToolset_add_server_def RemoteMCPConfig_bool_def MCPServerConfig_init_def
        RemoteMCPConfig_add_server_def logger_info_def)

text \<open>
  Claim C9. For a collection and for a toolset, \<open>__bool__\<close> is true exactly when \<open>__len__\<close>
  is greater than 0. A new collection has length 0 and is false, and after one endpoint
  is added (with \<open>add_server\<close> or \<open>add_server_url\<close>) it has length 1 and is true. A toolset
  built with no URL and no collection has length 0 and is false, and after one endpoint
  is added (with \<open>add_server_config\<close> or \<open>add_server\<close>) it has length 1 and is true.
\<close>

theorem len_and_bool:
  "RemoteMCPConfig_bool c = (RemoteMCPConfig_len c > 0)
   \<and> RemoteMCPToolset_bool ts w0 = (RemoteMCPToolset_len ts w0 > 0)
   \<and> RemoteMCPConfig_len RemoteMCPConfig_init = 0
   \<and> \<not> RemoteMCPConfig_bool RemoteMCPConfig_init
   \<and> RemoteMCPConfig_len (RemoteMCPConfig_add_server RemoteMCPConfig_init s) = 1
   \<and> RemoteMCPConfig_bool (RemoteMCPConfig_add_server RemoteMCPConfig_init s)
   \<and> (\<exists>c'. RemoteMCPConfig_add_server_url RemoteMCPConfig_init u t n d m = Inr c'
          \<and> RemoteMCPConfig_len c' = 1 \<and> RemoteMCPConfig_bool c')
   \<and> (\<exists>self w'. (RemoteMCPToolset_init None st sn sd None tf w
            :: error + ('f RemoteMCPToolset \<times> world)) = Inr (self, w')
          \<and> RemoteMCPToolset_len self w' = 0 \<and> \<not> RemoteMCPToolset_bool self w'
          \<and> RemoteMCPToolset_len self (add_server_config self s w') = 1
          \<and> RemoteMCPToolset_bool self (add_server_config self s w')
          \<and> (\<exists>w''. RemoteMCPToolset_add_server self u t n d md w' = Inr w''
                \<and> RemoteMCPToolset_len self w'' = 1 \<and> RemoteMCPToolset_bool self w''))"
  by (simp add: RemoteMCPConfig_bool_def RemoteMCPConfig_len_def RemoteMCPToolset_bool_def
        RemoteMCPToolset_len_def RemoteMCPConfig_init_def RemoteMCPConfig_add_server_def
        RemoteMCPConfig_add_server_url_def from_url_def MCPServerConfig_init_def
        RemoteMCPToolset_init_def alloc_def add_server_config_def
        RemoteMCPToolset_add_server_def logger_info_def)

section \<open>The feature decorators\<close>

subsection \<open>A class after its \<open>__init__\<close> is rebound\<close>







subsection \<open>What a decorator returns\<close>

lemma decorator_Class:
  "decorator label message (Class r) classes =
     (if cls_immutable (classes r) then
        Inl (TypeError (''cannot set '' @ [CHR 0x27] @ ''__init__'' @ [CHR 0x27]
               @ '' attribute of immutable type '' @ [CHR 0x27] @ cls_name (classes r) @ [CHR 0x27]))
      else Inr (Class r, classes(r := (classes r)\<lparr>cls_own_init :=
             Some (Warned (''['' @ upper label @ ''] '' @ cls_name (classes r) @ '': '' @ message)
                     (getattr_init classes r))\<rparr>)))"
  by (simp add: Let_def warn_msg_def)







subsection \<open>The claims\<close>




text \<open>
  Claim C8. A decorator applied to a callable that is not a class returns a wrapper, a
  callable that is not a class, and leaves the classes as they are. Each call of the
  wrapper issues one \<open>UserWarning\<close> with the text \<open>[LABEL] name: message\<close> and then is the
  call of the callable decorated on the same positional and keyword arguments: the
  wrapper returns what that call returns and leaves the environment that call leaves.
\<close>

theorem wrapper_warns_then_delegates:
  "\<exists>wrapper.
     make_feature_decorator label default_message message (Callable nm tn f) classes =
       Inr (wrapper, classes)
     \<and> callable wrapper \<and> \<not> isinstance_type wrapper
     \<and> (\<forall>a e. invoke classes wrapper a e =
           f a (e\<lparr>issued := issued e @
                  [(UserWarning,
                    ''['' @ upper label @ ''] '' @ (case nm of Some n \<Rightarrow> n | None \<Rightarrow> tn) @ '': ''
                      @ (case message of None \<Rightarrow> default_message | Some m \<Rightarrow> m))]\<rparr>))"
  by (simp add: make_feature_decorator_def Let_def warn_msg_def warnings_warn_def)

text \<open>
  \<open>count_args\<close> decorated with \<open>working_in_progress\<close>: a call returns what \<open>count_args\<close>
  returns, and one warning has been issued.
\<close>

theorem wrapper_warns_then_delegates_witness:
  "invoke no_classes
     (fst (projr (working_in_progress (Some ''not ready'')
        (Callable (Some ''count_args'') ''function'' count_args) no_classes)))
     two_args env0
   = (Inr (PInt 2), \<lparr>issued = [(UserWarning, ''[WIP] count_args: not ready'')], rest = ()\<rparr>)
   \<and> count_args two_args env0 = (Inr (PInt 2), env0)"
  using wrapper_warns_then_delegates [of "''WIP''" _ "Some ''not ready''" "Some ''count_args''"
      "''function''" count_args no_classes]
  by (simp add: working_in_progress_def make_feature_decorator_def Let_def warn_msg_def
        warnings_warn_def upper_def upper_char_def count_args_def two_args_def env0_def)




end
